theory Spec2Isabelle
  imports Main
begin

section \<open>Syntax trees of the TypeScript compiler API\<close>

text \<open>
  The migration reads syntax trees through the compiler API (\<open>ts.Node\<close>) and never
  changes them. A node is modelled by its syntax kind, with the fields the migration
  reads, and its text range: the byte offset where the node starts (\<open>getStart()\<close>) and
  its width in bytes (\<open>getWidth()\<close>). The range also tells two occurrences of the
  same text apart, as the identity of the node object does in the compiler.
  Every kind the migration does not inspect is \<open>OtherNode\<close>, with its children.
\<close>

type_synonym textRange = "nat \<times> nat"

datatype node =
    Identifier textRange string
  | StringLiteral textRange string
  | PropertyAccessExpression textRange node node
      \<comment> \<open>\<open>expression\<close>, \<open>name\<close>\<close>
  | CallExpression textRange node "node list" "node list"
      \<comment> \<open>\<open>expression\<close>, \<open>typeArguments\<close>, \<open>arguments\<close>\<close>
  | ArrayLiteralExpression textRange "node list"
      \<comment> \<open>\<open>elements\<close>\<close>
  | ObjectLiteralExpression textRange "node list"
      \<comment> \<open>\<open>properties\<close>\<close>
  | PropertyAssignment textRange node node
      \<comment> \<open>\<open>name\<close>, \<open>initializer\<close>\<close>
  | ShorthandPropertyAssignment textRange node
      \<comment> \<open>\<open>name\<close>\<close>
  | SpreadAssignment textRange node
      \<comment> \<open>\<open>expression\<close>; a spread has no \<open>name\<close>\<close>
  | MethodDeclaration textRange node "node list"
      \<comment> \<open>\<open>name\<close>, then parameters and body\<close>
  | AccessorDeclaration textRange node "node list"
      \<comment> \<open>a get or set accessor: \<open>name\<close>, then parameters and body\<close>
  | ImportDeclaration textRange "node list"
      \<comment> \<open>import clause and module specifier\<close>
  | ClassDeclaration textRange "node option" "node list"
      \<comment> \<open>\<open>name\<close> (absent for an anonymous default export), then the other children\<close>
  | OtherNode textRange "node list"

text \<open>The type guards of the compiler API compare the syntax kind of a node.\<close>

fun isIdentifier :: "node \<Rightarrow> bool" where
  "isIdentifier (Identifier _ _) = True"
| "isIdentifier _ = False"

fun isCallExpression :: "node \<Rightarrow> bool" where
  "isCallExpression (CallExpression _ _ _ _) = True"
| "isCallExpression _ = False"

fun isPropertyAccessExpression :: "node \<Rightarrow> bool" where
  "isPropertyAccessExpression (PropertyAccessExpression _ _ _) = True"
| "isPropertyAccessExpression _ = False"

fun isArrayLiteralExpression :: "node \<Rightarrow> bool" where
  "isArrayLiteralExpression (ArrayLiteralExpression _ _) = True"
| "isArrayLiteralExpression _ = False"

fun isObjectLiteralExpression :: "node \<Rightarrow> bool" where
  "isObjectLiteralExpression (ObjectLiteralExpression _ _) = True"
| "isObjectLiteralExpression _ = False"

fun isImportDeclaration :: "node \<Rightarrow> bool" where
  "isImportDeclaration (ImportDeclaration _ _) = True"
| "isImportDeclaration _ = False"

fun isClassDeclaration :: "node \<Rightarrow> bool" where
  "isClassDeclaration (ClassDeclaration _ _ _) = True"
| "isClassDeclaration _ = False"

text \<open>
  Field reads. A field that a kind does not have reads as \<open>undefined\<close> in JavaScript:
  \<open>None\<close> here, and the empty list for a list of nodes.
\<close>

fun getStart :: "node \<Rightarrow> nat" where
  "getStart (Identifier r _) = fst r"
| "getStart (StringLiteral r _) = fst r"
| "getStart (PropertyAccessExpression r _ _) = fst r"
| "getStart (CallExpression r _ _ _) = fst r"
| "getStart (ArrayLiteralExpression r _) = fst r"
| "getStart (ObjectLiteralExpression r _) = fst r"
| "getStart (PropertyAssignment r _ _) = fst r"
| "getStart (ShorthandPropertyAssignment r _) = fst r"
| "getStart (SpreadAssignment r _) = fst r"
| "getStart (MethodDeclaration r _ _) = fst r"
| "getStart (AccessorDeclaration r _ _) = fst r"
| "getStart (ImportDeclaration r _) = fst r"
| "getStart (ClassDeclaration r _ _) = fst r"
| "getStart (OtherNode r _) = fst r"

fun getWidth :: "node \<Rightarrow> nat" where
  "getWidth (Identifier r _) = snd r"
| "getWidth (StringLiteral r _) = snd r"
| "getWidth (PropertyAccessExpression r _ _) = snd r"
| "getWidth (CallExpression r _ _ _) = snd r"
| "getWidth (ArrayLiteralExpression r _) = snd r"
| "getWidth (ObjectLiteralExpression r _) = snd r"
| "getWidth (PropertyAssignment r _ _) = snd r"
| "getWidth (ShorthandPropertyAssignment r _) = snd r"
| "getWidth (SpreadAssignment r _) = snd r"
| "getWidth (MethodDeclaration r _ _) = snd r"
| "getWidth (AccessorDeclaration r _ _) = snd r"
| "getWidth (ImportDeclaration r _) = snd r"
| "getWidth (ClassDeclaration r _ _) = snd r"
| "getWidth (OtherNode r _) = snd r"

fun nodeText :: "node \<Rightarrow> string option" where
  "nodeText (Identifier _ s) = Some s"
| "nodeText (StringLiteral _ s) = Some s"
| "nodeText _ = None"

fun name :: "node \<Rightarrow> node option" where
  "name (PropertyAccessExpression _ _ n) = Some n"
| "name (PropertyAssignment _ n _) = Some n"
| "name (ShorthandPropertyAssignment _ n) = Some n"
| "name (MethodDeclaration _ n _) = Some n"
| "name (AccessorDeclaration _ n _) = Some n"
| "name (ClassDeclaration _ n _) = n"
| "name _ = None"

fun expression :: "node \<Rightarrow> node option" where
  "expression (PropertyAccessExpression _ e _) = Some e"
| "expression (CallExpression _ e _ _) = Some e"
| "expression (SpreadAssignment _ e) = Some e"
| "expression _ = None"

fun arguments :: "node \<Rightarrow> node list" where
  "arguments (CallExpression _ _ _ args) = args"
| "arguments _ = []"

fun elements :: "node \<Rightarrow> node list" where
  "elements (ArrayLiteralExpression _ es) = es"
| "elements _ = []"

fun properties :: "node \<Rightarrow> node list" where
  "properties (ObjectLiteralExpression _ ps) = ps"
| "properties _ = []"

text \<open>
  \<open>node.forEachChild(cb)\<close> calls \<open>cb\<close> on each child in source order and stops only
  when \<open>cb\<close> returns a truthy value. The callbacks of the migration return nothing, so
  every child is visited: the model is the list of children.
\<close>

fun forEachChild :: "node \<Rightarrow> node list" where
  "forEachChild (Identifier _ _) = []"
| "forEachChild (StringLiteral _ _) = []"
| "forEachChild (PropertyAccessExpression _ e n) = [e, n]"
| "forEachChild (CallExpression _ e targs args) = e # targs @ args"
| "forEachChild (ArrayLiteralExpression _ es) = es"
| "forEachChild (ObjectLiteralExpression _ ps) = ps"
| "forEachChild (PropertyAssignment _ n i) = [n, i]"
| "forEachChild (ShorthandPropertyAssignment _ n) = [n]"
| "forEachChild (SpreadAssignment _ e) = [e]"
| "forEachChild (MethodDeclaration _ n cs) = n # cs"
| "forEachChild (AccessorDeclaration _ n cs) = n # cs"
| "forEachChild (ImportDeclaration _ cs) = cs"
| "forEachChild (ClassDeclaration _ n cs) = (case n of None \<Rightarrow> [] | Some i \<Rightarrow> [i]) @ cs"
| "forEachChild (OtherNode _ cs) = cs"

text \<open>A source file: its name and its top-level statements.\<close>

record sourceFile =
  fileName :: string
  statements :: "node list"

section \<open>The type checker\<close>

text \<open>
  The type checker belongs to the compiler and is taken as a parameter: a symbol has a
  name and, optionally, declarations; a type has, optionally, a symbol.
\<close>

record tsSymbol =
  symbolName :: string
  declarations :: "node list option"

record tsType =
  getSymbol :: "tsSymbol option"

record typeChecker =
  getSymbolAtLocation :: "node \<Rightarrow> tsSymbol option"
  getTypeAtLocation :: "node \<Rightarrow> tsType"

section \<open>Errors\<close>

datatype error =
    TypeError
      \<comment> \<open>JavaScript's error for reading a property of \<open>undefined\<close> or \<open>null\<close>\<close>
  | MetadataError
      \<comment> \<open>an error raised by the metadata lookup of the template type checker\<close>
  | ConflictingEdits
      \<comment> \<open>two scheduled edits of one file overlap\<close>

text \<open>
  A \<open>for\<close> loop or a \<open>forEach\<close> whose body may throw: the state is threaded through
  the elements in order and the first error ends the loop.
\<close>

fun forEachE :: "('a \<Rightarrow> 's \<Rightarrow> error + 's) \<Rightarrow> 'a list \<Rightarrow> 's \<Rightarrow> error + 's" where
  "forEachE f [] s = Inr s"
| "forEachE f (x # xs) s = (case f x s of Inl e \<Rightarrow> Inl e | Inr s' \<Rightarrow> forEachE f xs s')"

lemma forEachE_cong [fundef_cong]:
  "xs = ys \<Longrightarrow> s = t \<Longrightarrow> (\<And>x u. x \<in> set ys \<Longrightarrow> f x u = g x u)
    \<Longrightarrow> forEachE f xs s = forEachE g ys t"
proof (induction ys arbitrary: xs s t)
  case Nil
  then show ?case by simp
next
  case (Cons y ys)
  then show ?case by (auto split: sum.splits)
qed

lemma size_forEachChild: "c \<in> set (forEachChild n) \<Longrightarrow> size c < size n"
  by (cases n) (auto dest: size_list_estimation' [where f = size] split: option.splits)

section \<open>Locating the route arrays (to-standalone.ts, findRoutesArrayToMigrate)\<close>

text \<open>
  \<open>isRouterModuleCallExpression\<close>, lines 54 to 61. In JavaScript \<open>&&\<close> binds tighter
  than \<open>||\<close>, so the returned expression is
  \<open>(moduleSymbol && moduleSymbol.name === 'RouterModule' && name.text === 'forRoot')
     || name.text === 'forChild'\<close>.
  The result is only tested for truthiness, so it is a \<open>bool\<close> here.
\<close>

definition isRouterModuleCallExpression :: "node \<Rightarrow> typeChecker \<Rightarrow> bool" where
  "isRouterModuleCallExpression node tc =
     (case node of
        CallExpression _ (PropertyAccessExpression _ propExpr propName) _ _ \<Rightarrow>
          (let moduleSymbol = getSymbolAtLocation tc propExpr in
             ((case moduleSymbol of None \<Rightarrow> False | Some s \<Rightarrow> symbolName s = ''RouterModule'')
               \<and> nodeText propName = Some ''forRoot'')
             \<or> nodeText propName = Some ''forChild'')
      | _ \<Rightarrow> False)"

text \<open>\<open>isRouterCallExpression\<close>, lines 63 to 70.\<close>

definition isRouterCallExpression :: "node \<Rightarrow> typeChecker \<Rightarrow> bool" where
  "isRouterCallExpression node tc =
     (case node of
        CallExpression _ (PropertyAccessExpression _ propExpr propName) _ _ \<Rightarrow>
          (let moduleSymbol = getSymbolAtLocation tc propExpr in
             (case moduleSymbol of None \<Rightarrow> False | Some s \<Rightarrow> symbolName s = ''Router'')
               \<and> nodeText propName = Some ''resetConfig'')
      | _ \<Rightarrow> False)"

text \<open>\<open>isRouterProviderCallExpression\<close>, lines 72 to 78.\<close>

definition isRouterProviderCallExpression :: "node \<Rightarrow> typeChecker \<Rightarrow> bool" where
  "isRouterProviderCallExpression node tc =
     (case node of
        CallExpression _ (Identifier r s) _ _ \<Rightarrow>
          (let moduleSymbol = getSymbolAtLocation tc (Identifier r s) in
             (case moduleSymbol of None \<Rightarrow> False | Some s \<Rightarrow> symbolName s = ''provideRouter''))
      | _ \<Rightarrow> False)"

text \<open>
  The first statement of \<open>walk\<close>, lines 81 to 93: what one node adds to \<open>routesArrays\<close>.
  \<open>node.arguments[0]\<close> of a call without arguments is \<open>undefined\<close>, and
  \<open>ts.isArrayLiteralExpression\<close> reads the \<open>kind\<close> of its argument, which throws a
  TypeError on \<open>undefined\<close>.
\<close>

definition recordRoutesArray :: "typeChecker \<Rightarrow> node \<Rightarrow> node list \<Rightarrow> error + node list" where
  "recordRoutesArray tc node routesArrays =
     (if isCallExpression node then
        (if isRouterModuleCallExpression node tc
            \<or> isRouterProviderCallExpression node tc
            \<or> isRouterCallExpression node tc
         then (case arguments node of
                 [] \<Rightarrow> Inl TypeError
               | arg # _ \<Rightarrow>
                   (if isArrayLiteralExpression arg then Inr (routesArrays @ [arg])
                    else Inr routesArrays))
         else Inr routesArrays)
      else Inr routesArrays)"

text \<open>\<open>walk\<close>, lines 80 to 96: the node itself, then its children, in order.\<close>

function walk :: "typeChecker \<Rightarrow> node \<Rightarrow> node list \<Rightarrow> error + node list" where
  "walk tc node routesArrays =
     (case recordRoutesArray tc node routesArrays of
        Inl e \<Rightarrow> Inl e
      | Inr routesArrays' \<Rightarrow> forEachE (walk tc) (forEachChild node) routesArrays')"
  by pat_completeness auto
termination
  by (relation "measure (\<lambda>(tc, n, acc). size n)") (auto simp: size_forEachChild)

text \<open>
  \<open>findRoutesArrayToMigrate\<close>, lines 48 to 99. The children of a source file are its
  statements and the end-of-file token, which is no call and has no children.
\<close>

definition findRoutesArrayToMigrate :: "sourceFile \<Rightarrow> typeChecker \<Rightarrow> error + node list" where
  "findRoutesArrayToMigrate sourceFile tc = forEachE (walk tc) (statements sourceFile) []"

text \<open>
  The nodes of a subtree, the root first: what a claim means by a node occurring within
  a source file.
\<close>

function nodesWithin :: "node \<Rightarrow> node list" where
  "nodesWithin n = n # concat (map nodesWithin (forEachChild n))"
  by pat_completeness auto
termination
  by (relation "measure size") (auto simp: size_forEachChild)

definition nodesOfFile :: "sourceFile \<Rightarrow> node list" where
  "nodesOfFile sf = concat (map nodesWithin (statements sf))"

text \<open>An array literal that is the first argument of a call among the given nodes.\<close>

definition firstArgumentIn :: "node list \<Rightarrow> node \<Rightarrow> bool" where
  "firstArgumentIn ns a \<longleftrightarrow>
     isArrayLiteralExpression a
     \<and> (\<exists>c \<in> set ns. isCallExpression c \<and> (\<exists>rest. arguments c = a # rest))"

section \<open>Resolving references (util.ts)\<close>

text \<open>
  \<open>findClassDeclaration\<close>, lines 16 to 26. The optional chaining \<open>?.\<close> gives
  \<open>undefined\<close> when the symbol or its declarations are missing, \<open>find\<close> gives
  \<open>undefined\<close> when no declaration is a class, and \<open>|| null\<close> turns both into
  \<open>null\<close>: \<open>None\<close> here.
\<close>

definition findClassDeclaration :: "node \<Rightarrow> typeChecker \<Rightarrow> node option" where
  "findClassDeclaration reference tc =
     (case getSymbol (getTypeAtLocation tc reference) of
        None \<Rightarrow> None
      | Some symbol \<Rightarrow>
          (case declarations symbol of
             None \<Rightarrow> None
           | Some decls \<Rightarrow> List.find isClassDeclaration decls))"

text \<open>\<open>findLiteralProperty\<close>, lines 29 to 33: the result is the property, not its value.\<close>

definition findLiteralProperty :: "node \<Rightarrow> string \<Rightarrow> node option" where
  "findLiteralProperty literal nm =
     List.find
       (\<lambda>prop. case name prop of
                 None \<Rightarrow> False
               | Some n \<Rightarrow> isIdentifier n \<and> nodeText n = Some nm)
       (properties literal)"

section \<open>The template type checker\<close>

text \<open>
  The metadata lookup belongs to the Angular compiler and is taken as a parameter. The
  migration can pass it \<open>null\<close> (line 135 asserts away the \<open>null\<close> of
  \<open>findClassDeclaration\<close>), and nothing in the migration says what the lookup does
  then, so the parameter takes an optional class and may raise.
\<close>

record directiveMeta =
  isStandalone :: bool

record templateTypeChecker =
  getDirectiveMetadata :: "node option \<Rightarrow> error + directiveMeta option"

text \<open>\<open>isStandaloneComponent\<close>, to-standalone.ts lines 201 to 207.\<close>

definition isStandaloneComponent :: "node option \<Rightarrow> templateTypeChecker \<Rightarrow> error + bool" where
  "isStandaloneComponent node ttc =
     (case getDirectiveMetadata ttc node of
        Inl e \<Rightarrow> Inl e
      | Inr metadata \<Rightarrow> Inr (case metadata of None \<Rightarrow> False | Some m \<Rightarrow> isStandalone m))"

section \<open>Nodes made by \<open>ts.factory\<close>\<close>

text \<open>
  The second argument of \<open>createPropertyAccessExpression\<close> is a string or a name node;
  the migration passes \<open>componentDeclaration.name!\<close>, which is \<open>undefined\<close> for a
  class without a name.
\<close>

datatype memberName = NameText string | NameNode "node option"

datatype newNode =
    NewIdentifier string
  | NewStringLiteral string
  | NewParameterDeclaration string
  | NewPropertyAccessExpression newNode memberName
  | NewCallExpression newNode "newNode list"
  | NewArrowFunction "newNode list" newNode
      \<comment> \<open>parameters, body\<close>
  | NewPropertyAssignment string newNode

section \<open>The change tracker\<close>

text \<open>
  Modelled from the spec: the class \<open>ChangeTracker\<close> (utils/change_tracker) is
  missing. Sections 3 and 6: an edit is a record \<open>{start, removeLength, text}\<close>
  anchored to the byte range \<open>[start, start + removeLength)\<close> of one file; the file
  is named by its path. The tracker holds the printer it was made with and the
  operations scheduled so far, in the order of scheduling.
\<close>

record pendingChange =
  inFile :: string
  start :: nat
  removeLength :: "nat option"
  newText :: string

record changeTracker =
  printNode :: "newNode \<Rightarrow> string"
  pending :: "pendingChange list"

type_synonym changesByFile = "string \<rightharpoonup> pendingChange list"

text \<open>
  Modelled from the spec: \<open>ChangeTracker.replaceNode\<close> is missing. Section 4.4: a
  replacement is rendered to text by the pretty-printer and attached as insertion text
  alongside the removal length of the original range. The first argument stands for
  \<open>node.getSourceFile()\<close>.
\<close>

definition replaceNode :: "(node \<Rightarrow> sourceFile) \<Rightarrow> changeTracker \<Rightarrow> node \<Rightarrow> newNode \<Rightarrow> changeTracker" where
  "replaceNode sourceFileOf tracker node newNode =
     tracker\<lparr>pending := pending tracker @
       [\<lparr>inFile = fileName (sourceFileOf node), start = getStart node,
         removeLength = Some (getWidth node), newText = printNode tracker newNode\<rparr>]\<rparr>"

text \<open>
  Modelled from the spec: \<open>ChangeTracker.removeNode\<close> is missing. Section 3: a Remove
  edit is anchored to the byte range of its node; it inserts nothing.
\<close>

definition removeNode :: "(node \<Rightarrow> sourceFile) \<Rightarrow> changeTracker \<Rightarrow> node \<Rightarrow> changeTracker" where
  "removeNode sourceFileOf tracker node =
     tracker\<lparr>pending := pending tracker @
       [\<lparr>inFile = fileName (sourceFileOf node), start = getStart node,
         removeLength = Some (getWidth node), newText = []\<rparr>]\<rparr>"

text \<open>
  Modelled from the spec: the byte range of an edit, which \<open>ChangeTracker\<close> would
  compare. Section 3: an insertion has a range of length zero.
\<close>

definition rangeLength :: "pendingChange \<Rightarrow> nat" where
  "rangeLength c = (case removeLength c of None \<Rightarrow> 0 | Some n \<Rightarrow> n)"

definition sameRange :: "pendingChange \<Rightarrow> pendingChange \<Rightarrow> bool" where
  "sameRange a b \<longleftrightarrow> start a = start b \<and> rangeLength a = rangeLength b"

text \<open>
  Modelled from the spec: overlap of two edits. Section 3: two byte ranges overlap when
  they share a byte or one lies strictly inside the other; an empty range on the
  boundary of another range does not overlap it.
\<close>

definition overlaps :: "pendingChange \<Rightarrow> pendingChange \<Rightarrow> bool" where
  "overlaps a b \<longleftrightarrow> start a < start b + rangeLength b \<and> start b < start a + rangeLength a"

text \<open>
  Modelled from the spec: steps of the missing \<open>recordChanges\<close>. Section 4.4 (3): of
  the operations scheduled for one exact range, the last wins; (4): two edits that
  overlap are a conflict.
\<close>

fun lastScheduled :: "pendingChange list \<Rightarrow> pendingChange list" where
  "lastScheduled [] = []"
| "lastScheduled (c # cs) =
     (if list_ex (sameRange c) cs then lastScheduled cs else c # lastScheduled cs)"

fun conflicting :: "pendingChange list \<Rightarrow> bool" where
  "conflicting [] = False"
| "conflicting (c # cs) = (list_ex (overlaps c) cs \<or> conflicting cs)"

text \<open>
  Modelled from the spec: section 4.4 (1) to (3), the edits of one file, sorted by start
  offset.
\<close>

definition changesOfFile :: "string \<Rightarrow> changeTracker \<Rightarrow> pendingChange list" where
  "changesOfFile f tracker =
     sort_key start (lastScheduled (filter (\<lambda>c. inFile c = f) (pending tracker)))"

text \<open>
  Modelled from the spec: \<open>ChangeTracker.recordChanges\<close> is missing. Section 4.4:
  group by file, sort by start offset ascending, the last operation scheduled for an
  exact range wins, and overlapping ranges that remain are a conflict; section 7: a
  conflict fails with a hard error.
\<close>

definition recordChanges :: "changeTracker \<Rightarrow> error + changesByFile" where
  "recordChanges tracker =
     (if list_ex (\<lambda>f. conflicting (changesOfFile f tracker)) (map inFile (pending tracker))
      then Inl ConflictingEdits
      else Inr (\<lambda>f. if f \<in> set (map inFile (pending tracker))
                     then Some (changesOfFile f tracker) else None))"

section \<open>Rewriting the routes (to-standalone.ts, migrateRoutesArray)\<close>

text \<open>
  The body of the loop over the routes, lines 128 to 188. The state is the tracker and
  \<open>importsToRemove\<close>. \<open>component\<close> is the result of \<open>findLiteralProperty\<close> and
  the tests of lines 131 and 132 are applied to it as they are written.
\<close>

definition migrateRoute ::
  "typeChecker \<Rightarrow> templateTypeChecker \<Rightarrow> (node \<Rightarrow> sourceFile) \<Rightarrow> node
    \<Rightarrow> changeTracker \<times> node list \<Rightarrow> error + changeTracker \<times> node list" where
  "migrateRoute tc ttc sourceFileOf route st =
     (case st of (tracker, importsToRemove) \<Rightarrow>
        if isObjectLiteralExpression route then
          (case findLiteralProperty route ''component'' of
             None \<Rightarrow> Inr st
           | Some component \<Rightarrow>
               if isIdentifier component then
                 (let componentDeclaration = findClassDeclaration component tc in
                    case isStandaloneComponent componentDeclaration ttc of
                      Inl e \<Rightarrow> Inl e
                    | Inr False \<Rightarrow> Inr st
                    | Inr True \<Rightarrow>
                        (case componentDeclaration of
                           None \<Rightarrow> Inr st
                         | Some decl \<Rightarrow>
                             (let loadComponent =
                                NewPropertyAssignment ''loadComponent''
                                  (NewArrowFunction []
                                    (NewCallExpression
                                      (NewPropertyAccessExpression
                                        (NewCallExpression (NewIdentifier ''import'')
                                          [NewStringLiteral (fileName (sourceFileOf decl))])
                                        (NameText ''then''))
                                      [NewArrowFunction [NewParameterDeclaration ''m'']
                                         (NewPropertyAccessExpression (NewIdentifier ''m'')
                                           (NameNode (name decl)))]))
                              in Inr (replaceNode sourceFileOf tracker component loadComponent,
                                      importsToRemove
                                        @ filter isImportDeclaration
                                            (statements (sourceFileOf decl))))))
               else Inr st)
        else Inr st)"

text \<open>
  The value a route gives to \<open>component\<close>: the initializer of a property assignment,
  the name itself for a shorthand property; a method or an accessor has none.
\<close>

definition componentValue :: "node \<Rightarrow> node option" where
  "componentValue route =
     (case findLiteralProperty route ''component'' of
        Some (PropertyAssignment _ _ v) \<Rightarrow> Some v
      | Some (ShorthandPropertyAssignment _ n) \<Rightarrow> Some n
      | _ \<Rightarrow> None)"

text \<open>\<open>migrateRoutesArray\<close>, lines 103 to 194: the loop, then the removals.\<close>

definition migrateRoutesArray ::
  "node \<Rightarrow> typeChecker \<Rightarrow> templateTypeChecker \<Rightarrow> (node \<Rightarrow> sourceFile) \<Rightarrow> changeTracker
    \<Rightarrow> error + changeTracker" where
  "migrateRoutesArray routesArray tc ttc sourceFileOf tracker =
     (case forEachE (migrateRoute tc ttc sourceFileOf) (elements routesArray) (tracker, []) of
        Inl e \<Rightarrow> Inl e
      | Inr (tracker', importsToRemove) \<Rightarrow>
          Inr (fold (\<lambda>importToRemove t. removeNode sourceFileOf t importToRemove)
                 importsToRemove tracker'))"

section \<open>The migration (to-standalone.ts, toLazyStandaloneRoutes)\<close>

text \<open>
  The program gives the two checkers; \<open>getSourceFile\<close> stands for the method of that
  name of every node. The optional import remapper is only handed to the tracker, which
  uses it for imports it adds; the migration adds none.
\<close>

record ngtscProgram =
  getTemplateTypeChecker :: templateTypeChecker
  getTypeChecker :: typeChecker
  getSourceFile :: "node \<Rightarrow> sourceFile"

definition toLazyStandaloneRoutes ::
  "sourceFile list \<Rightarrow> ngtscProgram \<Rightarrow> (newNode \<Rightarrow> string) \<Rightarrow> error + changesByFile" where
  "toLazyStandaloneRoutes sourceFiles program printer =
     (let templateTypeChecker = getTemplateTypeChecker program;
          typeChecker = getTypeChecker program;
          tracker = \<lparr>printNode = printer, pending = []\<rparr>
      in case forEachE
                (\<lambda>sourceFile tracker.
                   case findRoutesArrayToMigrate sourceFile typeChecker of
                     Inl e \<Rightarrow> Inl e
                   | Inr routeArraysToMigrate \<Rightarrow>
                       forEachE
                         (\<lambda>routeArray tracker.
                            migrateRoutesArray routeArray typeChecker templateTypeChecker
                              (getSourceFile program) tracker)
                         routeArraysToMigrate tracker)
                sourceFiles tracker of
           Inl e \<Rightarrow> Inl e
         | Inr tracker' \<Rightarrow> recordChanges tracker')"

section \<open>Concrete programs\<close>

text \<open>
  In the programs below every identifier resolves to a symbol of its own name, as it
  does where nothing is imported under an alias.
\<close>

definition symbolByName :: "node \<Rightarrow> tsSymbol option" where
  "symbolByName n =
     (case nodeText n of
        None \<Rightarrow> None
      | Some s \<Rightarrow> Some \<lparr>symbolName = s, declarations = None\<rparr>)"

text \<open>
  \<open>/app/foo.ts\<close>:
  \<^verbatim>\<open>import {Component} from '@angular/core';\<close>
  \<^verbatim>\<open>@Component({standalone: true, template: ''})\<close>
  \<^verbatim>\<open>export class Foo {}\<close>
\<close>

definition fooClass :: node where
  "fooClass = ClassDeclaration (41, 64) (Some (Identifier (99, 3) ''Foo'')) [OtherNode (41, 44) []]"

definition fooImport :: node where
  "fooImport =
     ImportDeclaration (0, 40)
       [OtherNode (7, 11) [Identifier (8, 9) ''Component''], StringLiteral (24, 15) ''@angular/core'']"

definition fooFile :: sourceFile where
  "fooFile = \<lparr>fileName = ''/app/foo.ts'', statements = [fooImport, fooClass]\<rparr>"

text \<open>
  \<open>/app/main.ts\<close>:
  \<^verbatim>\<open>import {Foo} from './foo';\<close>
  \<^verbatim>\<open>provideRouter([{ path: 'x', component: Foo }]);\<close>
\<close>

definition fooRoute :: node where
  "fooRoute =
     ObjectLiteralExpression (42, 29)
       [PropertyAssignment (44, 9) (Identifier (44, 4) ''path'') (StringLiteral (50, 3) ''x''),
        PropertyAssignment (55, 14) (Identifier (55, 9) ''component'') (Identifier (66, 3) ''Foo'')]"

definition fooRoutes :: node where
  "fooRoutes = ArrayLiteralExpression (41, 31) [fooRoute]"

definition mainFile :: sourceFile where
  "mainFile = \<lparr>fileName = ''/app/main.ts'', statements =
     [ImportDeclaration (0, 26)
        [OtherNode (7, 5) [Identifier (8, 3) ''Foo''], StringLiteral (18, 7) ''./foo''],
      OtherNode (27, 47)
        [CallExpression (27, 46) (Identifier (27, 13) ''provideRouter'') [] [fooRoutes]]]\<rparr>"

text \<open>
  The type of every node is the class \<open>Foo\<close>, so that a reference resolves to the class
  whichever node is looked up; the metadata lookup is given below per program.
\<close>

definition fooChecker :: typeChecker where
  "fooChecker =
     \<lparr>getSymbolAtLocation = symbolByName,
      getTypeAtLocation =
        (\<lambda>n. \<lparr>getSymbol = Some \<lparr>symbolName = ''Foo'', declarations = Some [fooClass]\<rparr>\<rparr>)\<rparr>"

definition standaloneMetadata :: templateTypeChecker where
  "standaloneMetadata =
     \<lparr>getDirectiveMetadata =
        (\<lambda>d. if d = Some fooClass then Inr (Some \<lparr>isStandalone = True\<rparr>) else Inr None)\<rparr>"

definition moduleMetadata :: templateTypeChecker where
  "moduleMetadata =
     \<lparr>getDirectiveMetadata =
        (\<lambda>d. if d = Some fooClass then Inr (Some \<lparr>isStandalone = False\<rparr>) else Inr None)\<rparr>"

definition noMetadata :: templateTypeChecker where
  "noMetadata = \<lparr>getDirectiveMetadata = (\<lambda>d. Inr None)\<rparr>"

definition fooSourceFileOf :: "node \<Rightarrow> sourceFile" where
  "fooSourceFileOf n = (if n = fooClass \<or> n = fooImport then fooFile else mainFile)"

definition fooProgram :: ngtscProgram where
  "fooProgram =
     \<lparr>getTemplateTypeChecker = standaloneMetadata, getTypeChecker = fooChecker,
      getSourceFile = fooSourceFileOf\<rparr>"

definition emptyPrinter :: "newNode \<Rightarrow> string" where
  "emptyPrinter n = []"

definition newTracker :: changeTracker where
  "newTracker = \<lparr>printNode = emptyPrinter, pending = []\<rparr>"

text \<open>\<open>/app/y.ts\<close>: \<^verbatim>\<open>Y.forChild([]);\<close>\<close>

definition yForChild :: sourceFile where
  "yForChild = \<lparr>fileName = ''/app/y.ts'', statements =
     [OtherNode (0, 15)
        [CallExpression (0, 14)
           (PropertyAccessExpression (0, 10)
              (Identifier (0, 1) ''Y'') (Identifier (2, 8) ''forChild''))
           [] [ArrayLiteralExpression (11, 2) []]]]\<rparr>"

text \<open>A checker that resolves symbols by name and knows no type.\<close>

definition nameChecker :: typeChecker where
  "nameChecker =
     \<lparr>getSymbolAtLocation = symbolByName, getTypeAtLocation = (\<lambda>n. \<lparr>getSymbol = None\<rparr>)\<rparr>"

text \<open>\<open>/app/reset.ts\<close>: \<^verbatim>\<open>Router.resetConfig(someRoutesArray);\<close>\<close>

definition resetConfigCall :: node where
  "resetConfigCall =
     CallExpression (0, 35)
       (PropertyAccessExpression (0, 18)
          (Identifier (0, 6) ''Router'') (Identifier (7, 11) ''resetConfig''))
       [] [Identifier (19, 15) ''someRoutesArray'']"

definition resetConfigFile :: sourceFile where
  "resetConfigFile =
     \<lparr>fileName = ''/app/reset.ts'', statements = [OtherNode (0, 36) [resetConfigCall]]\<rparr>"

text \<open>\<open>/app/empty.ts\<close>: \<^verbatim>\<open>provideRouter();\<close>\<close>

definition noArgumentFile :: sourceFile where
  "noArgumentFile = \<lparr>fileName = ''/app/empty.ts'', statements =
     [OtherNode (0, 16) [CallExpression (0, 15) (Identifier (0, 13) ''provideRouter'') [] []]]\<rparr>"

text \<open>\<open>/app/shared.ts\<close>: \<^verbatim>\<open>TranslateModule.forChild();\<close>\<close>

definition forChildNoArgumentFile :: sourceFile where
  "forChildNoArgumentFile = \<lparr>fileName = ''/app/shared.ts'', statements =
     [OtherNode (0, 27)
        [CallExpression (0, 26)
           (PropertyAccessExpression (0, 24)
              (Identifier (0, 15) ''TranslateModule'') (Identifier (16, 8) ''forChild''))
           [] []]]\<rparr>"

text \<open>The route \<^verbatim>\<open>{ path: 'y', component: lazy.Bar }\<close>.\<close>

definition memberRoute :: node where
  "memberRoute =
     ObjectLiteralExpression (0, 34)
       [PropertyAssignment (2, 9) (Identifier (2, 4) ''path'') (StringLiteral (8, 3) ''y''),
        PropertyAssignment (13, 19) (Identifier (13, 9) ''component'')
          (PropertyAccessExpression (24, 8)
             (Identifier (24, 4) ''lazy'') (Identifier (29, 3) ''Bar''))]"

text \<open>
  Declarations of one symbol: a variable statement, then two class declarations (a
  class merged with a second declaration of the same name).
\<close>

definition mergedDeclarations :: "node list" where
  "mergedDeclarations =
     [OtherNode (0, 12) [],
      ClassDeclaration (13, 10) (Some (Identifier (19, 1) ''A'')) [],
      ClassDeclaration (24, 10) (Some (Identifier (30, 1) ''A'')) []]"

definition mergedChecker :: typeChecker where
  "mergedChecker =
     \<lparr>getSymbolAtLocation = symbolByName,
      getTypeAtLocation =
        (\<lambda>n. \<lparr>getSymbol = Some \<lparr>symbolName = ''A'', declarations = Some mergedDeclarations\<rparr>\<rparr>)\<rparr>"

text \<open>
  A tracker after four operations on \<open>/app/a.ts\<close>: a replacement of bytes 40 to 53,
  the removal of bytes 0 to 25, the same removal again, and an insertion at byte 26.
\<close>

definition busyTracker :: changeTracker where
  "busyTracker =
     \<lparr>printNode = emptyPrinter,
      pending =
        [\<lparr>inFile = ''/app/a.ts'', start = 40, removeLength = Some 14, newText = ''loadComponent''\<rparr>,
         \<lparr>inFile = ''/app/a.ts'', start = 0, removeLength = Some 26, newText = []\<rparr>,
         \<lparr>inFile = ''/app/a.ts'', start = 0, removeLength = Some 26, newText = []\<rparr>,
         \<lparr>inFile = ''/app/a.ts'', start = 26, removeLength = None, newText = ''x''\<rparr>]\<rparr>"

section \<open>Auxiliary facts\<close>

declare walk.simps [simp del] nodesWithin.simps [simp del]

lemma forEachE_unchanged:
  "(\<And>x s. x \<in> set xs \<Longrightarrow> f x s = Inr s) \<Longrightarrow> forEachE f xs s = Inr s"
  by (induction xs) simp_all

lemma forEachE_preserves:
  assumes "\<And>x s s'. x \<in> set xs \<Longrightarrow> f x s = Inr s' \<Longrightarrow> s' = s"
    and "forEachE f xs s = Inr s'"
  shows "s' = s"
  using assms by (induction xs arbitrary: s) (auto split: sum.splits)

text \<open>
  A loop whose body only appends to a list: the result is the old list followed by new
  elements, and each new element was appended for one of the elements looped over.
\<close>

lemma forEachE_appends:
  assumes "\<And>x s s'. x \<in> set xs \<Longrightarrow> f x s = Inr s'
             \<Longrightarrow> \<exists>new. s' = s @ new \<and> (\<forall>a \<in> set new. Q x a)"
    and "forEachE f xs s = Inr s'"
  shows "\<exists>new. s' = s @ new \<and> (\<forall>a \<in> set new. \<exists>x \<in> set xs. Q x a)"
  using assms
proof (induction xs arbitrary: s)
  case Nil
  then show ?case by simp
next
  case (Cons x xs)
  from Cons.prems(2) obtain s1 where s1: "f x s = Inr s1" and rest: "forEachE f xs s1 = Inr s'"
    by (auto split: sum.splits)
  from Cons.prems(1) [OF _ s1] obtain new1 where n1: "s1 = s @ new1" "\<forall>a \<in> set new1. Q x a"
    by auto
  have "\<exists>new. s' = s1 @ new \<and> (\<forall>a \<in> set new. \<exists>x \<in> set xs. Q x a)"
    by (rule Cons.IH [OF _ rest]) (use Cons.prems(1) in auto)
  then obtain new2 where n2: "s' = s1 @ new2" "\<forall>a \<in> set new2. \<exists>x \<in> set xs. Q x a"
    by auto
  show ?case
  proof (intro exI conjI)
    show "s' = s @ (new1 @ new2)" using n1 n2 by simp
    show "\<forall>a \<in> set (new1 @ new2). \<exists>x \<in> set (x # xs). Q x a" using n1 n2 by auto
  qed
qed

subsection \<open>The locator\<close>

lemma recordRoutesArray_cases:
  assumes "recordRoutesArray tc n acc = Inr acc'"
  shows "acc' = acc \<or> (\<exists>arg rest. acc' = acc @ [arg] \<and> isArrayLiteralExpression arg
            \<and> isCallExpression n \<and> arguments n = arg # rest)"
  using assms by (auto simp: recordRoutesArray_def split: if_splits list.splits)

lemma nodesWithin_self: "n \<in> set (nodesWithin n)"
  by (subst nodesWithin.simps) simp

lemma nodesWithin_child:
  "c \<in> set (forEachChild n) \<Longrightarrow> set (nodesWithin c) \<subseteq> set (nodesWithin n)"
  by (subst (2) nodesWithin.simps) auto

lemma walk_appends:
  "walk tc n acc = Inr acc'
    \<Longrightarrow> \<exists>new. acc' = acc @ new \<and> (\<forall>a \<in> set new. firstArgumentIn (nodesWithin n) a)"
proof (induction tc n acc arbitrary: acc' rule: walk.induct)
  case (1 tc node routesArrays)
  from "1.prems" obtain acc1 where r: "recordRoutesArray tc node routesArrays = Inr acc1"
    and kids: "forEachE (walk tc) (forEachChild node) acc1 = Inr acc'"
    by (subst (asm) walk.simps) (auto split: sum.splits)
  have own: "\<exists>new. acc1 = routesArrays @ new
               \<and> (\<forall>a \<in> set new. firstArgumentIn (nodesWithin node) a)"
    using recordRoutesArray_cases [OF r] nodesWithin_self [of node]
    unfolding firstArgumentIn_def by fastforce
  have "\<exists>new. acc' = acc1 @ new
          \<and> (\<forall>a \<in> set new. \<exists>x \<in> set (forEachChild node). firstArgumentIn (nodesWithin x) a)"
    by (rule forEachE_appends [OF _ kids]) (use "1.IH" [OF r] in blast)
  then obtain new2 where n2: "acc' = acc1 @ new2"
    "\<forall>a \<in> set new2. \<exists>x \<in> set (forEachChild node). firstArgumentIn (nodesWithin x) a"
    by auto
  have "\<forall>a \<in> set new2. firstArgumentIn (nodesWithin node) a"
    using n2(2) nodesWithin_child [of _ node] unfolding firstArgumentIn_def by blast
  with own n2(1) show ?case by auto
qed

subsection \<open>The rewriter\<close>

text \<open>
  \<open>findLiteralProperty\<close> returns a property of the object literal, which has a name;
  an identifier has none. So the test \<open>ts.isIdentifier(component)\<close> of line 132 fails
  for every property found, and the loop body leaves its state as it was.
\<close>

lemma findLiteralProperty_named:
  assumes "findLiteralProperty literal nm = Some p"
  shows "\<exists>n. name p = Some n"
  using assms unfolding findLiteralProperty_def
  by (auto simp: find_Some_iff split: option.splits)

lemma findLiteralProperty_not_identifier:
  "findLiteralProperty literal nm = Some p \<Longrightarrow> \<not> isIdentifier p"
  by (cases p) (auto dest: findLiteralProperty_named)

lemma migrateRoute_skips: "migrateRoute tc ttc sourceFileOf route st = Inr st"
  unfolding migrateRoute_def
  by (auto split: prod.splits option.splits dest: findLiteralProperty_not_identifier)

lemma migrateRoutesArray_schedules_nothing:
  "migrateRoutesArray routesArray tc ttc sourceFileOf tracker = Inr tracker"
  unfolding migrateRoutesArray_def
  by (simp add: forEachE_unchanged migrateRoute_skips)

lemma recordChanges_new: "pending tracker = [] \<Longrightarrow> recordChanges tracker = Inr Map.empty"
  by (simp add: recordChanges_def)

lemma toLazyStandaloneRoutes_schedules_nothing:
  assumes "toLazyStandaloneRoutes sourceFiles program printer = Inr changes"
  shows "changes = Map.empty"
proof -
  let ?tc = "getTypeChecker program"
  let ?new = "\<lparr>printNode = printer, pending = []\<rparr>"
  let ?arrays = "\<lambda>routeArray tracker.
                   migrateRoutesArray routeArray ?tc (getTemplateTypeChecker program)
                     (getSourceFile program) tracker"
  let ?files = "\<lambda>sourceFile tracker.
                  case findRoutesArrayToMigrate sourceFile ?tc of
                    Inl e \<Rightarrow> Inl e
                  | Inr routeArraysToMigrate \<Rightarrow> forEachE ?arrays routeArraysToMigrate tracker"
  from assms obtain tracker' where run: "forEachE ?files sourceFiles ?new = Inr tracker'"
    and rec: "recordChanges tracker' = Inr changes"
    by (auto simp: toLazyStandaloneRoutes_def Let_def split: sum.splits)
  have "?files sf tr = Inr tr' \<Longrightarrow> tr' = tr" for sf tr tr'
    by (auto split: sum.splits
        simp: migrateRoutesArray_schedules_nothing forEachE_unchanged)
  then have "tracker' = ?new"
    using forEachE_preserves [where f = ?files, OF _ run] by blast
  with rec show ?thesis by (simp add: recordChanges_new)
qed

subsection \<open>The change tracker\<close>

lemma conflicting_sorted_wrt:
  "\<not> conflicting es \<longleftrightarrow> sorted_wrt (\<lambda>a b. \<not> overlaps a b) es"
  by (induction es) (auto simp: list_ex_iff)

lemma overlaps_commute: "overlaps a b \<longleftrightarrow> overlaps b a"
  by (auto simp: overlaps_def)

lemma recordChanges_busyTracker:
  "recordChanges busyTracker =
     Inr (\<lambda>f. if f = ''/app/a.ts''
              then Some
                [\<lparr>inFile = ''/app/a.ts'', start = 0, removeLength = Some 26, newText = []\<rparr>,
                 \<lparr>inFile = ''/app/a.ts'', start = 26, removeLength = None, newText = ''x''\<rparr>,
                 \<lparr>inFile = ''/app/a.ts'', start = 40, removeLength = Some 14,
                   newText = ''loadComponent''\<rparr>]
              else None)"
  by (auto simp: recordChanges_def busyTracker_def changesOfFile_def sameRange_def
      rangeLength_def overlaps_def sort_key_def)

subsection \<open>Lists\<close>

lemma find_first:
  assumes "\<exists>d \<in> set xs. P d"
  shows "\<exists>i < length xs. List.find P xs = Some (xs ! i) \<and> P (xs ! i)
           \<and> (\<forall>j < i. \<not> P (xs ! j))"
proof -
  from assms have "List.find P xs \<noteq> None"
    by (auto simp: find_None_iff)
  then obtain x where "List.find P xs = Some x"
    by auto
  then show ?thesis
    by (auto simp: find_Some_iff)
qed

section \<open>The claims\<close>

text \<open>
  C1. For a source file with \<open>[{ path: 'x', component: Foo }]\<close> inside a recognized
  route-registration call, where \<open>Foo\<close> is a class declared as a standalone component,
  the migration is said to schedule exactly one Replace edit, turning \<open>component: Foo\<close>
  into \<open>loadComponent: () => import('...').then(m => m.Foo)\<close>.
  On \<open>/app/main.ts\<close> the code does not: the array is located, \<open>Foo\<close> resolves to
  its class and the class is standalone, but \<open>findLiteralProperty\<close> returns the
  property assignment \<open>component: Foo\<close>, line 132 asks whether that property is an
  identifier, and the route is skipped. The tracker stays empty and the migration
  returns the empty mapping.
\<close>

theorem standalone_route_not_migrated:
  "findRoutesArrayToMigrate mainFile fooChecker = Inr [fooRoutes]
   \<and> elements fooRoutes = [fooRoute]
   \<and> findLiteralProperty fooRoute ''component''
       = Some (PropertyAssignment (55, 14) (Identifier (55, 9) ''component'')
                 (Identifier (66, 3) ''Foo''))
   \<and> findClassDeclaration (Identifier (66, 3) ''Foo'') fooChecker = Some fooClass
   \<and> isStandaloneComponent (Some fooClass) standaloneMetadata = Inr True
   \<and> migrateRoutesArray fooRoutes fooChecker standaloneMetadata fooSourceFileOf newTracker
       = Inr newTracker
   \<and> pending newTracker = []
   \<and> toLazyStandaloneRoutes [mainFile] fooProgram emptyPrinter = Inr Map.empty"
proof -
  have located: "findRoutesArrayToMigrate mainFile fooChecker = Inr [fooRoutes]"
    by (simp add: findRoutesArrayToMigrate_def mainFile_def fooChecker_def symbolByName_def
        fooRoutes_def fooRoute_def walk.simps recordRoutesArray_def
        isRouterModuleCallExpression_def isRouterProviderCallExpression_def
        isRouterCallExpression_def)
  have property: "findLiteralProperty fooRoute ''component''
       = Some (PropertyAssignment (55, 14) (Identifier (55, 9) ''component'')
                 (Identifier (66, 3) ''Foo''))"
    by (simp add: findLiteralProperty_def fooRoute_def)
  have resolved: "findClassDeclaration (Identifier (66, 3) ''Foo'') fooChecker = Some fooClass"
    by (simp add: findClassDeclaration_def fooChecker_def fooClass_def)
  have standalone: "isStandaloneComponent (Some fooClass) standaloneMetadata = Inr True"
    by (simp add: isStandaloneComponent_def standaloneMetadata_def)
  have skipped: "migrateRoute fooChecker standaloneMetadata fooSourceFileOf fooRoute
                   (newTracker, []) = Inr (newTracker, [])"
    by (simp add: migrateRoute_def property fooRoute_def [symmetric])
  have rewritten: "migrateRoutesArray fooRoutes fooChecker standaloneMetadata fooSourceFileOf
                     newTracker = Inr newTracker"
    by (simp add: migrateRoutesArray_def fooRoutes_def skipped)
  have run: "toLazyStandaloneRoutes [mainFile] fooProgram emptyPrinter = Inr Map.empty"
    using located rewritten
    by (simp add: toLazyStandaloneRoutes_def fooProgram_def newTracker_def recordChanges_def)
  show ?thesis
    using located property resolved standalone rewritten run
    by (simp add: fooRoutes_def newTracker_def)
qed

text \<open>
  C2. A call \<open>Y.forChild([...])\<close> whose \<open>Y\<close> is not bound to a symbol named
  \<open>RouterModule\<close> is said to yield no candidate. On \<open>/app/y.ts\<close>, where \<open>Y\<close> is
  bound to a symbol named \<open>Y\<close>, the code records the array: in line 58 the test of
  \<open>forChild\<close> stands outside the conjunction with the symbol check.
\<close>

theorem forChild_of_other_module_located:
  "getSymbolAtLocation nameChecker (Identifier (0, 1) ''Y'')
     = Some \<lparr>symbolName = ''Y'', declarations = None\<rparr>
   \<and> findRoutesArrayToMigrate yForChild nameChecker = Inr [ArrayLiteralExpression (11, 2) []]"
  by (simp add: findRoutesArrayToMigrate_def yForChild_def nameChecker_def symbolByName_def
      walk.simps recordRoutesArray_def isRouterModuleCallExpression_def
      isRouterProviderCallExpression_def isRouterCallExpression_def)

text \<open>
  C4. A route object whose \<open>component\<close> value is not a plain identifier, or whose
  identifier resolves to no class declaration, is skipped: the loop body returns
  normally and leaves the tracker and the imports to remove as they were.
\<close>

theorem unresolvable_route_skipped:
  assumes "isObjectLiteralExpression route"
    and "\<forall>v. componentValue route = Some v
           \<longrightarrow> \<not> isIdentifier v \<or> findClassDeclaration v tc = None"
  shows "migrateRoute tc ttc sourceFileOf route (tracker, importsToRemove)
           = Inr (tracker, importsToRemove)"
  by (rule migrateRoute_skips)

theorem unresolvable_route_skipped_witness:
  "isObjectLiteralExpression memberRoute
   \<and> componentValue memberRoute
       = Some (PropertyAccessExpression (24, 8)
                 (Identifier (24, 4) ''lazy'') (Identifier (29, 3) ''Bar''))
   \<and> migrateRoute nameChecker standaloneMetadata fooSourceFileOf memberRoute (newTracker, [])
       = Inr (newTracker, [])
   \<and> isObjectLiteralExpression fooRoute
   \<and> componentValue fooRoute = Some (Identifier (66, 3) ''Foo'')
   \<and> findClassDeclaration (Identifier (66, 3) ''Foo'') nameChecker = None
   \<and> migrateRoute nameChecker standaloneMetadata fooSourceFileOf fooRoute (newTracker, [])
       = Inr (newTracker, [])"
proof -
  have object: "isObjectLiteralExpression memberRoute"
    by (simp add: memberRoute_def)
  have member: "componentValue memberRoute
       = Some (PropertyAccessExpression (24, 8)
                 (Identifier (24, 4) ''lazy'') (Identifier (29, 3) ''Bar''))"
    by (simp add: componentValue_def findLiteralProperty_def memberRoute_def)
  have object': "isObjectLiteralExpression fooRoute"
    by (simp add: fooRoute_def)
  have ident: "componentValue fooRoute = Some (Identifier (66, 3) ''Foo'')"
    by (simp add: componentValue_def findLiteralProperty_def fooRoute_def)
  have unresolved: "findClassDeclaration (Identifier (66, 3) ''Foo'') nameChecker = None"
    by (simp add: findClassDeclaration_def nameChecker_def)
  show ?thesis
    using object member object' ident unresolved
      unresolvable_route_skipped [of memberRoute nameChecker standaloneMetadata
        fooSourceFileOf newTracker "[]"]
      unresolvable_route_skipped [of fooRoute nameChecker standaloneMetadata
        fooSourceFileOf newTracker "[]"]
    by simp
qed

text \<open>
  C5. A route object whose \<open>component\<close> references a class that is classified
  non-standalone, or that has no extractable metadata, gets no edit:
  \<open>isStandaloneComponent\<close> answers \<open>false\<close> for the class, and the loop body leaves
  the tracker and the imports to remove as they were.
\<close>

theorem non_standalone_route_skipped:
  assumes "isObjectLiteralExpression route"
    and "componentValue route = Some v"
    and "findClassDeclaration v tc = Some decl"
    and "getDirectiveMetadata ttc (Some decl) = Inr None
         \<or> (\<exists>m. getDirectiveMetadata ttc (Some decl) = Inr (Some m) \<and> \<not> isStandalone m)"
  shows "isStandaloneComponent (Some decl) ttc = Inr False
       \<and> migrateRoute tc ttc sourceFileOf route (tracker, importsToRemove)
           = Inr (tracker, importsToRemove)"
  using assms(4) by (auto simp: isStandaloneComponent_def migrateRoute_skips)

theorem non_standalone_route_skipped_witness:
  "isObjectLiteralExpression fooRoute
   \<and> componentValue fooRoute = Some (Identifier (66, 3) ''Foo'')
   \<and> findClassDeclaration (Identifier (66, 3) ''Foo'') fooChecker = Some fooClass
   \<and> getDirectiveMetadata moduleMetadata (Some fooClass) = Inr (Some \<lparr>isStandalone = False\<rparr>)
   \<and> isStandaloneComponent (Some fooClass) moduleMetadata = Inr False
   \<and> migrateRoute fooChecker moduleMetadata fooSourceFileOf fooRoute (newTracker, [])
       = Inr (newTracker, [])
   \<and> getDirectiveMetadata noMetadata (Some fooClass) = Inr None
   \<and> isStandaloneComponent (Some fooClass) noMetadata = Inr False
   \<and> migrateRoute fooChecker noMetadata fooSourceFileOf fooRoute (newTracker, [])
       = Inr (newTracker, [])"
proof -
  have object: "isObjectLiteralExpression fooRoute"
    by (simp add: fooRoute_def)
  have ident: "componentValue fooRoute = Some (Identifier (66, 3) ''Foo'')"
    by (simp add: componentValue_def findLiteralProperty_def fooRoute_def)
  have resolved: "findClassDeclaration (Identifier (66, 3) ''Foo'') fooChecker = Some fooClass"
    by (simp add: findClassDeclaration_def fooChecker_def fooClass_def)
  have classified:
    "getDirectiveMetadata moduleMetadata (Some fooClass) = Inr (Some \<lparr>isStandalone = False\<rparr>)"
    by (simp add: moduleMetadata_def)
  have absent: "getDirectiveMetadata noMetadata (Some fooClass) = Inr None"
    by (simp add: noMetadata_def)
  show ?thesis
    using object ident resolved classified absent
      non_standalone_route_skipped [OF object ident resolved, of moduleMetadata
        fooSourceFileOf newTracker "[]"]
      non_standalone_route_skipped [OF object ident resolved, of noMetadata
        fooSourceFileOf newTracker "[]"]
    by simp
qed

text \<open>
  C6. In the mapping that \<open>recordChanges\<close> returns, and so in the mapping the migration
  returns (\<open>toLazyStandaloneRoutes\<close> returns what \<open>recordChanges\<close> gives for its
  tracker), the edits of every file are ordered by increasing start offset and no two
  of them have overlapping byte ranges.
\<close>

theorem recorded_changes_ordered_disjoint:
  assumes "recordChanges tracker = Inr changes"
    and "changes f = Some edits"
  shows "(\<forall>i j. i < j \<and> j < length edits \<longrightarrow> start (edits ! i) \<le> start (edits ! j))
       \<and> (\<forall>i j. i < length edits \<and> j < length edits \<and> i \<noteq> j
              \<longrightarrow> \<not> overlaps (edits ! i) (edits ! j))"
proof -
  let ?conflict =
    "list_ex (\<lambda>f. conflicting (changesOfFile f tracker)) (map inFile (pending tracker))"
  let ?result = "\<lambda>f. if f \<in> set (map inFile (pending tracker))
                      then Some (changesOfFile f tracker) else None"
  have unfolded: "recordChanges tracker = (if ?conflict then Inl ConflictingEdits else Inr ?result)"
    by (simp add: recordChanges_def)
  have ok: "\<not> ?conflict"
    using assms(1) unfolded by (cases ?conflict) simp_all
  have "Inr ?result = Inr changes"
    using assms(1) unfolded ok by simp
  then have ch: "changes = ?result"
    by (simp only: sum.inject)
  have "?result f = Some edits"
    using assms(2) unfolding ch .
  then have f: "f \<in> set (map inFile (pending tracker))"
    and edits: "edits = changesOfFile f tracker"
    by (simp_all split: if_splits)
  from ok f have "\<not> conflicting (changesOfFile f tracker)"
    unfolding list_ex_iff by blast
  then have free: "sorted_wrt (\<lambda>a b. \<not> overlaps a b) edits"
    unfolding edits by (simp only: conflicting_sorted_wrt)
  have "sorted (map start edits)"
    unfolding edits changesOfFile_def by (rule sorted_sort_key)
  then have ordered: "start (edits ! i) \<le> start (edits ! j)"
    if "i < j" "j < length edits" for i j
    using that by (simp add: sorted_iff_nth_mono_less)
  have disjoint: "\<not> overlaps (edits ! i) (edits ! j)"
    if "i < length edits" "j < length edits" "i \<noteq> j" for i j
  proof (cases "i < j")
    case True
    with free that show ?thesis by (simp add: sorted_wrt_iff_nth_less)
  next
    case False
    with that have "j < i" by simp
    with free that have "\<not> overlaps (edits ! j) (edits ! i)"
      by (simp add: sorted_wrt_iff_nth_less)
    then show ?thesis by (simp add: overlaps_commute)
  qed
  show ?thesis
  proof (intro conjI allI impI)
    fix i j assume "i < j \<and> j < length edits"
    then show "start (edits ! i) \<le> start (edits ! j)" using ordered by blast
  next
    fix i j assume "i < length edits \<and> j < length edits \<and> i \<noteq> j"
    then show "\<not> overlaps (edits ! i) (edits ! j)" using disjoint by blast
  qed
qed


theorem recorded_changes_ordered_disjoint_witness:
  "\<exists>changes edits.
      recordChanges busyTracker = Inr changes \<and> changes ''/app/a.ts'' = Some edits
      \<and> map start edits = [0, 26, 40]
      \<and> (\<forall>i j. i < j \<and> j < length edits \<longrightarrow> start (edits ! i) \<le> start (edits ! j))
      \<and> (\<forall>i j. i < length edits \<and> j < length edits \<and> i \<noteq> j
             \<longrightarrow> \<not> overlaps (edits ! i) (edits ! j))"
proof -
  define edits where "edits =
    [\<lparr>inFile = ''/app/a.ts'', start = 0, removeLength = Some 26, newText = []\<rparr>,
     \<lparr>inFile = ''/app/a.ts'', start = 26, removeLength = None, newText = ''x''\<rparr>,
     \<lparr>inFile = ''/app/a.ts'', start = 40, removeLength = Some 14,
       newText = ''loadComponent''\<rparr>]"
  define changes :: changesByFile
    where "changes = (\<lambda>f. if f = ''/app/a.ts'' then Some edits else None)"
  have recorded: "recordChanges busyTracker = Inr changes"
    unfolding changes_def edits_def by (rule recordChanges_busyTracker)
  have lookup: "changes ''/app/a.ts'' = Some edits"
    by (simp add: changes_def)
  have starts: "map start edits = [0, 26, 40]"
    by (simp add: edits_def)
  note ordered = recorded_changes_ordered_disjoint [OF recorded lookup, THEN conjunct1]
  note disjoint = recorded_changes_ordered_disjoint [OF recorded lookup, THEN conjunct2]
  show ?thesis
    by (rule exI [of _ changes], rule exI [of _ edits])
       (intro conjI recorded lookup starts ordered disjoint)
qed

text \<open>
  C7. A recognized route-registration call whose first argument is not an array literal
  records no candidate: \<open>routesArrays\<close> is as it was when \<open>walk\<close> goes on to the
  children of the call. For \<open>Router.resetConfig(someRoutesArray)\<close> the locator
  returns no array.
\<close>

theorem indirect_argument_not_recorded:
  assumes "isCallExpression node"
    and "isRouterModuleCallExpression node tc \<or> isRouterProviderCallExpression node tc
         \<or> isRouterCallExpression node tc"
    and "arguments node = arg # rest"
    and "\<not> isArrayLiteralExpression arg"
  shows "recordRoutesArray tc node routesArrays = Inr routesArrays
       \<and> walk tc node routesArrays = forEachE (walk tc) (forEachChild node) routesArrays"
  using assms by (subst walk.simps) (simp add: recordRoutesArray_def)

theorem indirect_argument_not_recorded_witness:
  "isCallExpression resetConfigCall
   \<and> isRouterCallExpression resetConfigCall nameChecker
   \<and> arguments resetConfigCall = [Identifier (19, 15) ''someRoutesArray'']
   \<and> \<not> isArrayLiteralExpression (Identifier (19, 15) ''someRoutesArray'')
   \<and> recordRoutesArray nameChecker resetConfigCall [] = Inr []
   \<and> walk nameChecker resetConfigCall []
       = forEachE (walk nameChecker) (forEachChild resetConfigCall) []
   \<and> findRoutesArrayToMigrate resetConfigFile nameChecker = Inr []"
proof -
  have call: "isCallExpression resetConfigCall"
    by (simp add: resetConfigCall_def)
  have recognized: "isRouterCallExpression resetConfigCall nameChecker"
    by (simp add: resetConfigCall_def isRouterCallExpression_def nameChecker_def
        symbolByName_def)
  have args: "arguments resetConfigCall = [Identifier (19, 15) ''someRoutesArray'']"
    by (simp add: resetConfigCall_def)
  have indirect: "\<not> isArrayLiteralExpression (Identifier (19, 15) ''someRoutesArray'')"
    by simp
  have skip: "recordRoutesArray nameChecker resetConfigCall [] = Inr []
      \<and> walk nameChecker resetConfigCall []
          = forEachE (walk nameChecker) (forEachChild resetConfigCall) []"
    using recognized
    by (intro indirect_argument_not_recorded [OF call _ args indirect]) simp
  have children: "forEachE (walk nameChecker) (forEachChild resetConfigCall) [] = Inr []"
    by (simp add: resetConfigCall_def walk.simps recordRoutesArray_def)
  have none: "findRoutesArrayToMigrate resetConfigFile nameChecker = Inr []"
    using skip children
    by (simp add: findRoutesArrayToMigrate_def resetConfigFile_def walk.simps [of _ "OtherNode _ _"]
        recordRoutesArray_def)
  from call recognized args indirect skip none show ?thesis by simp
qed

text \<open>
  C8. \<open>findRoutesArrayToMigrate\<close> is said to return normally for every source file,
  also when a recognized call has no argument. On \<open>/app/empty.ts\<close>, which is
  \<open>provideRouter()\<close>, the code throws: \<open>node.arguments[0]\<close> is \<open>undefined\<close> and
  \<open>ts.isArrayLiteralExpression\<close> reads its \<open>kind\<close>. It throws on
  \<open>/app/shared.ts\<close> as well, which is \<open>TranslateModule.forChild()\<close>.
\<close>

theorem call_without_arguments_throws:
  "findRoutesArrayToMigrate noArgumentFile nameChecker = Inl TypeError
   \<and> findRoutesArrayToMigrate forChildNoArgumentFile nameChecker = Inl TypeError"
  by (simp add: findRoutesArrayToMigrate_def noArgumentFile_def forChildNoArgumentFile_def
      nameChecker_def symbolByName_def walk.simps recordRoutesArray_def
      isRouterModuleCallExpression_def isRouterProviderCallExpression_def
      isRouterCallExpression_def)

text \<open>
  C9. \<open>findClassDeclaration\<close> has no failing branch. It returns \<open>null\<close> when the type
  at the reference has no symbol and when the symbol has no declarations; otherwise it
  returns the first class declaration among the declarations of the symbol, and
  \<open>null\<close> when none of them is a class declaration.
\<close>

theorem findClassDeclaration_total:
  "(getSymbol (getTypeAtLocation tc reference) = None
      \<longrightarrow> findClassDeclaration reference tc = None)
   \<and> (\<forall>symbol. getSymbol (getTypeAtLocation tc reference) = Some symbol
          \<and> declarations symbol = None
        \<longrightarrow> findClassDeclaration reference tc = None)
   \<and> (\<forall>symbol decls. getSymbol (getTypeAtLocation tc reference) = Some symbol
          \<and> declarations symbol = Some decls
        \<longrightarrow> (if \<exists>d \<in> set decls. isClassDeclaration d
             then \<exists>i < length decls. findClassDeclaration reference tc = Some (decls ! i)
                    \<and> isClassDeclaration (decls ! i)
                    \<and> (\<forall>j < i. \<not> isClassDeclaration (decls ! j))
             else findClassDeclaration reference tc = None))"
  using find_first [of _ isClassDeclaration]
  by (auto simp: findClassDeclaration_def find_None_iff)

theorem findClassDeclaration_total_witness:
  "getSymbol (getTypeAtLocation mergedChecker (Identifier (40, 1) ''A''))
     = Some \<lparr>symbolName = ''A'', declarations = Some mergedDeclarations\<rparr>
   \<and> (\<exists>d \<in> set mergedDeclarations. isClassDeclaration d)
   \<and> (\<exists>i < length mergedDeclarations.
         findClassDeclaration (Identifier (40, 1) ''A'') mergedChecker
           = Some (mergedDeclarations ! i)
         \<and> isClassDeclaration (mergedDeclarations ! i)
         \<and> (\<forall>j < i. \<not> isClassDeclaration (mergedDeclarations ! j)))
   \<and> getSymbol (getTypeAtLocation nameChecker (Identifier (40, 1) ''A'')) = None
   \<and> findClassDeclaration (Identifier (40, 1) ''A'') nameChecker = None"
proof -
  let ?symbol = "\<lparr>symbolName = ''A'', declarations = Some mergedDeclarations\<rparr>"
  have symbol: "getSymbol (getTypeAtLocation mergedChecker (Identifier (40, 1) ''A''))
                  = Some ?symbol"
    by (simp add: mergedChecker_def)
  have decls: "declarations ?symbol = Some mergedDeclarations"
    by simp
  have has_class: "\<exists>d \<in> set mergedDeclarations. isClassDeclaration d"
    by (simp add: mergedDeclarations_def)
  have no_symbol: "getSymbol (getTypeAtLocation nameChecker (Identifier (40, 1) ''A'')) = None"
    by (simp add: nameChecker_def)
  from findClassDeclaration_total [of mergedChecker "Identifier (40, 1) ''A''"]
    symbol decls has_class
  have first: "\<exists>i < length mergedDeclarations.
         findClassDeclaration (Identifier (40, 1) ''A'') mergedChecker
           = Some (mergedDeclarations ! i)
         \<and> isClassDeclaration (mergedDeclarations ! i)
         \<and> (\<forall>j < i. \<not> isClassDeclaration (mergedDeclarations ! j))"
    by presburger
  from findClassDeclaration_total [of nameChecker "Identifier (40, 1) ''A''"] no_symbol
  have "findClassDeclaration (Identifier (40, 1) ''A'') nameChecker = None"
    by blast
  with symbol has_class first no_symbol show ?thesis by blast
qed

text \<open>
  C10. Every element of the sequence that \<open>findRoutesArrayToMigrate\<close> returns is an
  array literal and is the first argument of a call expression within the source file.
\<close>

theorem located_arrays_are_first_arguments:
  assumes "findRoutesArrayToMigrate sourceFile tc = Inr routesArrays"
    and "a \<in> set routesArrays"
  shows "isArrayLiteralExpression a
       \<and> (\<exists>c \<in> set (nodesOfFile sourceFile).
              isCallExpression c \<and> (\<exists>rest. arguments c = a # rest))"
proof -
  have "\<exists>new. routesArrays = [] @ new
          \<and> (\<forall>a \<in> set new. \<exists>x \<in> set (statements sourceFile).
                firstArgumentIn (nodesWithin x) a)"
    by (rule forEachE_appends [OF _ assms(1) [unfolded findRoutesArrayToMigrate_def]])
       (rule walk_appends)
  with assms(2) obtain x
    where "x \<in> set (statements sourceFile)" "firstArgumentIn (nodesWithin x) a"
    by auto
  then show ?thesis
    unfolding firstArgumentIn_def nodesOfFile_def by auto
qed

theorem located_arrays_are_first_arguments_witness:
  "findRoutesArrayToMigrate mainFile fooChecker = Inr [fooRoutes]
   \<and> fooRoutes \<in> set [fooRoutes]
   \<and> isArrayLiteralExpression fooRoutes
   \<and> (\<exists>c \<in> set (nodesOfFile mainFile).
          isCallExpression c \<and> (\<exists>rest. arguments c = fooRoutes # rest))"
proof -
  have located: "findRoutesArrayToMigrate mainFile fooChecker = Inr [fooRoutes]"
    by (simp add: findRoutesArrayToMigrate_def mainFile_def fooChecker_def symbolByName_def
        fooRoutes_def fooRoute_def walk.simps recordRoutesArray_def
        isRouterModuleCallExpression_def isRouterProviderCallExpression_def
        isRouterCallExpression_def)
  have member: "fooRoutes \<in> set [fooRoutes]"
    by simp
  from located member located_arrays_are_first_arguments [OF located member]
  show ?thesis by simp
qed

end
